theory Spec2Isabelle
  imports Main "HOL-Library.Word" "HOL-Library.Multiset"
begin

section \<open>Data model\<close>

text \<open>
  The todo application keeps its whole state in one React component
  (\<^verbatim>\<open>src/src/App.tsx\<close>). A JavaScript string is a sequence of UTF-16 code units;
  \<^verbatim>\<open>String.prototype.trim\<close> depends on code units beyond ASCII, so the text of a todo
  is a list of 16-bit words. The literal titles and bodies of notifications are ASCII
  and are written as HOL strings.
\<close>

type_synonym jsstring = "16 word list"

definition ascii :: "string \<Rightarrow> jsstring" where
  "ascii s = map of_char s"

text \<open>
  \<^verbatim>\<open>interface Todo { id: number; text: string; status: "Pending" | "Completed" }\<close>.
  An id is produced by \<^verbatim>\<open>Date.now()\<close> only, an integral number of milliseconds.
\<close>

datatype status = Pending | Completed

record Todo =
  id' :: int
  text' :: jsstring
  status :: status

text \<open>The filter of the view is \<^verbatim>\<open>"All" | "Pending" | "Completed"\<close>: the
  literal \<^verbatim>\<open>"All"\<close> or the name of a status.\<close>

datatype filter_value = All' | Status status

record app_state =
  todos :: "Todo list"
  newTodo :: jsstring
  filter_value :: filter_value

definition initial_state :: app_state where
  "initial_state = \<lparr>todos = [], newTodo = [], filter_value = All'\<rparr>"

subsection \<open>Values of type \<^verbatim>\<open>any\<close>\<close>

text \<open>
  \<^verbatim>\<open>getOfflineData\<close> and \<^verbatim>\<open>JSON.parse\<close> return \<^verbatim>\<open>any\<close>, and
  \<^verbatim>\<open>loadTodos\<close> hands what they return to \<^verbatim>\<open>setTodos\<close> unexamined. \<open>JNum\<close>
  carries the integral numbers.
\<close>

datatype js_value =
    JUndefined
  | JNull
  | JBool bool
  | JNum int
  | JStr jsstring
  | JArr "js_value list"
  | JObj "(jsstring \<times> js_value) list"

fun truthy :: "js_value \<Rightarrow> bool" where
  "truthy JUndefined = False"
| "truthy JNull = False"
| "truthy (JBool b) = b"
| "truthy (JNum n) = (n \<noteq> 0)"
| "truthy (JStr s) = (s \<noteq> [])"
| "truthy (JArr xs) = True"
| "truthy (JObj ps) = True"

text \<open>\<^verbatim>\<open>data.todos\<close>, read only where \<^verbatim>\<open>data\<close> is truthy.\<close>

fun get_todos :: "js_value \<Rightarrow> js_value" where
  "get_todos (JObj ps) = (case map_of ps (ascii ''todos'') of None \<Rightarrow> JUndefined | Some v \<Rightarrow> v)"
| "get_todos v = JUndefined"

definition status_name :: "status \<Rightarrow> string" where
  "status_name s = (case s of Pending \<Rightarrow> ''Pending'' | Completed \<Rightarrow> ''Completed'')"

definition todo_value :: "Todo \<Rightarrow> js_value" where
  "todo_value t =
     JObj [(ascii ''id'', JNum (id' t)),
           (ascii ''text'', JStr (text' t)),
           (ascii ''status'', JStr (ascii (status_name (status t))))]"

definition todos_value :: "Todo list \<Rightarrow> js_value" where
  "todos_value ts = JArr (map todo_value ts)"

subsection \<open>The platform\<close>

text \<open>
  What the browser or the Electron host answers during one run of a handler. A call
  that can fail carries its outcome: \<open>Inl e\<close> or \<open>Some e\<close> is the exception thrown or
  the rejection of the promise.
\<close>

datatype js_error = SyntaxError | QuotaExceededError | HostError

datatype permission = Default | Granted | Denied

record ElectronAPI =
  getOfflineData :: "js_error + js_value"
  saveOfflineData :: "js_error option"

record window =
  electronAPI :: "ElectronAPI option"
  getItem :: "jsstring option"
  JSON_parse :: "js_error + js_value"
  setItem :: "js_error option"
  Date_now :: int
  Notification_permission :: permission
  requestPermission :: permission

text \<open>
  \<open>getItem\<close> is \<^verbatim>\<open>localStorage.getItem("todos")\<close> (\<open>None\<close> for \<^verbatim>\<open>null\<close>),
  \<open>JSON_parse\<close> the outcome of \<^verbatim>\<open>JSON.parse\<close> on that string, \<open>setItem\<close> the
  outcome of \<^verbatim>\<open>localStorage.setItem("todos", ...)\<close>, \<open>requestPermission\<close> what
  \<^verbatim>\<open>Notification.requestPermission()\<close> resolves to. The calls that carry no
  outcome are taken to return: \<^verbatim>\<open>localStorage.getItem\<close>, \<^verbatim>\<open>Date.now\<close>,
  the notification interface of the browser and \<^verbatim>\<open>showNotification\<close> of the host.
\<close>

datatype effect =
    SaveOfflineData "Todo list"
  | SetItem "Todo list"
  | HostNotification string string
  | WebNotification string string
  | RequestPermission
  | ConsoleError string js_error

text \<open>
  An \<^verbatim>\<open>async\<close> function returns a promise: an exception inside its body, thrown
  or awaited, rejects the promise and is never thrown to the caller.
\<close>

datatype promise = Fulfilled | Rejected js_error

definition async :: "js_error option \<Rightarrow> promise" where
  "async body = (case body of None \<Rightarrow> Fulfilled | Some e \<Rightarrow> Rejected e)"

text \<open>A promise that is called for and dropped: its rejection stays unhandled.\<close>

definition dropped :: "promise \<Rightarrow> js_error list" where
  "dropped p = (case p of Fulfilled \<Rightarrow> [] | Rejected e \<Rightarrow> [e])"

definition console_errors :: "effect list \<Rightarrow> effect list" where
  "console_errors es = filter (\<lambda>e. case e of ConsoleError m x \<Rightarrow> True | _ \<Rightarrow> False) es"

section \<open>String.prototype.trim\<close>

text \<open>
  ECMAScript's \<^verbatim>\<open>trim\<close> removes leading and trailing white space and line
  terminators: TAB, LF, VT, FF, CR, SP, NBSP, U+1680, U+2000 to U+200A, LS, PS,
  U+202F, U+205F, U+3000 and the byte order mark.
\<close>

definition is_white_space :: "16 word \<Rightarrow> bool" where
  "is_white_space c \<longleftrightarrow>
     c \<in> {0x9, 0xA, 0xB, 0xC, 0xD, 0x20, 0xA0, 0x1680, 0x2028, 0x2029, 0x202F, 0x205F, 0x3000, 0xFEFF}
     \<or> (0x2000 \<le> c \<and> c \<le> 0x200A)"

definition trim :: "jsstring \<Rightarrow> jsstring" where
  "trim s = rev (dropWhile is_white_space (rev (dropWhile is_white_space s)))"

section \<open>Persistence\<close>

record load_result =
  load_promise :: promise
  setTodos :: "js_value option"
  load_log :: "effect list"

text \<open>
  \<^verbatim>\<open>loadTodos\<close> (lines 52-68). \<open>setTodos\<close> is the argument of the call of
  \<^verbatim>\<open>setTodos\<close>, if one is made. The Electron branch wraps the host call in
  \<^verbatim>\<open>try\<close>/\<^verbatim>\<open>catch\<close>; the \<^verbatim>\<open>localStorage\<close> branch has no handler.
\<close>

definition loadTodos :: "window \<Rightarrow> load_result" where
  "loadTodos w =
     (case electronAPI w of
        Some api \<Rightarrow>
          (case getOfflineData api of
             Inl error \<Rightarrow>
               \<lparr>load_promise = Fulfilled, setTodos = None,
                load_log = [ConsoleError ''Failed to load todos:'' error]\<rparr>
           | Inr data \<Rightarrow>
               if truthy data \<and> truthy (get_todos data)
               then \<lparr>load_promise = Fulfilled, setTodos = Some (get_todos data), load_log = []\<rparr>
               else \<lparr>load_promise = Fulfilled, setTodos = None, load_log = []\<rparr>)
      | None \<Rightarrow>
          (case getItem w of
             None \<Rightarrow> \<lparr>load_promise = Fulfilled, setTodos = None, load_log = []\<rparr>
           | Some storedTodos \<Rightarrow>
               if storedTodos \<noteq> []
               then (case JSON_parse w of
                       Inl error \<Rightarrow> \<lparr>load_promise = Rejected error, setTodos = None, load_log = []\<rparr>
                     | Inr v \<Rightarrow> \<lparr>load_promise = Fulfilled, setTodos = Some v, load_log = []\<rparr>)
               else \<lparr>load_promise = Fulfilled, setTodos = None, load_log = []\<rparr>))"

text \<open>The sequence in memory once \<^verbatim>\<open>loadTodos\<close> has run on the initial state
  \<^verbatim>\<open>useState<Todo[]>([])\<close>.\<close>

definition loaded_todos :: "load_result \<Rightarrow> js_value" where
  "loaded_todos r = (case setTodos r of None \<Rightarrow> todos_value (todos initial_state) | Some v \<Rightarrow> v)"

text \<open>
  \<^verbatim>\<open>saveTodos\<close> (lines 70-76): the call made to the backend and the promise of
  the \<^verbatim>\<open>async\<close> function. It has no \<^verbatim>\<open>try\<close>/\<^verbatim>\<open>catch\<close>.
\<close>

definition saveTodos :: "window \<Rightarrow> Todo list \<Rightarrow> effect list \<times> promise" where
  "saveTodos w updatedTodos =
     (case electronAPI w of
        Some api \<Rightarrow> ([SaveOfflineData updatedTodos], async (saveOfflineData api))
      | None \<Rightarrow> ([SetItem updatedTodos], async (setItem w)))"

section \<open>Notifications\<close>

text \<open>\<^verbatim>\<open>showWebNotification\<close> (lines 139-143), given the current value of
  \<^verbatim>\<open>Notification.permission\<close>.\<close>

definition showWebNotification :: "permission \<Rightarrow> string \<Rightarrow> string \<Rightarrow> effect list" where
  "showWebNotification perm title body =
     (if perm = Granted then [WebNotification title body] else [])"

text \<open>\<^verbatim>\<open>showNotification\<close> (lines 145-159). After a request the permission is what
  the request resolved to.\<close>

definition showNotification :: "window \<Rightarrow> string \<Rightarrow> string \<Rightarrow> effect list" where
  "showNotification w title body =
     (case electronAPI w of
        Some api \<Rightarrow> [HostNotification title body]
      | None \<Rightarrow>
          if Notification_permission w = Granted
          then showWebNotification (Notification_permission w) title body
          else RequestPermission #
               (if requestPermission w = Granted
                then showWebNotification (requestPermission w) title body
                else []))"

section \<open>The handlers\<close>

text \<open>
  A handler runs on the state of the current render and on the platform. It yields
  the next state, the platform calls it made in order, the exception it throws to its
  caller if any, the value it returns, and the rejections of the promises it dropped.
  The three handlers are arrow functions with a block body and no \<^verbatim>\<open>return\<close>
  statement: the value of a call is \<^verbatim>\<open>undefined\<close>, and the new sequence reaches
  the component through \<^verbatim>\<open>setTodos\<close> alone.
\<close>

record outcome =
  state :: app_state
  effects :: "effect list"
  thrown :: "js_error option"
  returned :: js_value
  unhandled :: "js_error list"

text \<open>\<^verbatim>\<open>addTodo\<close> (lines 78-93).\<close>

definition addTodo :: "window \<Rightarrow> app_state \<Rightarrow> outcome" where
  "addTodo w s =
     (if trim (newTodo s) \<noteq> []
      then
        let updatedTodos =
              todos s @ [\<lparr>id' = Date_now w, text' = trim (newTodo s), status = Pending\<rparr>]
        in \<lparr>state = s\<lparr>todos := updatedTodos, newTodo := []\<rparr>,
            effects = fst (saveTodos w updatedTodos)
                      @ showNotification w ''Todo Added'' ''A new todo has been added.'',
            thrown = None,
            returned = JUndefined,
            unhandled = dropped (snd (saveTodos w updatedTodos))\<rparr>
      else \<lparr>state = s, effects = [], thrown = None, returned = JUndefined, unhandled = []\<rparr>)"

text \<open>\<^verbatim>\<open>deleteTodo\<close> (lines 95-100).\<close>

definition deleteTodo :: "window \<Rightarrow> int \<Rightarrow> app_state \<Rightarrow> outcome" where
  "deleteTodo w i s =
     (let updatedTodos = filter (\<lambda>todo. id' todo \<noteq> i) (todos s)
      in \<lparr>state = s\<lparr>todos := updatedTodos\<rparr>,
          effects = fst (saveTodos w updatedTodos)
                    @ showNotification w ''Todo Deleted'' ''A todo has been deleted.'',
          thrown = None,
          returned = JUndefined,
          unhandled = dropped (snd (saveTodos w updatedTodos))\<rparr>)"

text \<open>\<^verbatim>\<open>toggleTodoStatus\<close> (lines 118-137). The body of the notification
  interpolates \<^verbatim>\<open>updatedTodos.find(...)?.status\<close>, which is \<^verbatim>\<open>undefined\<close> when
  no todo has the id.\<close>

definition toggled :: "int \<Rightarrow> Todo \<Rightarrow> Todo" where
  "toggled i todo =
     (if id' todo = i
      then todo\<lparr>status := (if status todo = Pending then Completed else Pending)\<rparr>
      else todo)"

definition found_status :: "int \<Rightarrow> Todo list \<Rightarrow> string" where
  "found_status i updatedTodos =
     (case find (\<lambda>todo. id' todo = i) updatedTodos of
        None \<Rightarrow> ''undefined''
      | Some todo \<Rightarrow> status_name (status todo))"

definition toggleTodoStatus :: "window \<Rightarrow> int \<Rightarrow> app_state \<Rightarrow> outcome" where
  "toggleTodoStatus w i s =
     (let updatedTodos = map (toggled i) (todos s)
      in \<lparr>state = s\<lparr>todos := updatedTodos\<rparr>,
          effects = fst (saveTodos w updatedTodos)
                    @ showNotification w ''Todo Status Updated''
                        (''A todo has been marked as '' @ found_status i updatedTodos @ ''.''),
          thrown = None,
          returned = JUndefined,
          unhandled = dropped (snd (saveTodos w updatedTodos))\<rparr>)"

text \<open>\<^verbatim>\<open>filteredTodos\<close> (lines 178-179).\<close>

definition filteredTodos :: "filter_value \<Rightarrow> Todo list \<Rightarrow> Todo list" where
  "filteredTodos f ts =
     (if f = All' then ts else filter (\<lambda>todo. Status (status todo) = f) ts)"

text \<open>The input field: \<^verbatim>\<open>onChange={(e) => setNewTodo(e.target.value)}\<close> (line 193).\<close>

definition setNewTodo :: "jsstring \<Rightarrow> app_state \<Rightarrow> app_state" where
  "setNewTodo v s = s\<lparr>newTodo := v\<rparr>"

section \<open>Vocabulary of the properties\<close>

text \<open>The outcome of the write of the backend in use: \<^verbatim>\<open>saveOfflineData\<close> when the
  host is present, \<^verbatim>\<open>localStorage.setItem\<close> otherwise.\<close>

definition backend_save :: "window \<Rightarrow> js_error option" where
  "backend_save w = (case electronAPI w of Some api \<Rightarrow> saveOfflineData api | None \<Rightarrow> setItem w)"

subsection \<open>Sample platforms and states\<close>

text \<open>A browser whose storage holds \<^verbatim>\<open>[]\<close>, with notifications granted.\<close>

definition browser :: window where
  "browser =
     \<lparr>electronAPI = None, getItem = Some (ascii ''[]''), JSON_parse = Inr (JArr []),
      setItem = None, Date_now = 1730600000000,
      Notification_permission = Granted, requestPermission = Granted\<rparr>"

text \<open>The same browser with a payload cut short, \<^verbatim>\<open>[{\<close>, on which
  \<^verbatim>\<open>JSON.parse\<close> throws a \<^verbatim>\<open>SyntaxError\<close>.\<close>

definition truncated_storage :: window where
  "truncated_storage = browser\<lparr>getItem := Some (ascii ''[{''), JSON_parse := Inl SyntaxError\<rparr>"

text \<open>A payload that parses and is no sequence: \<^verbatim>\<open>{}\<close>.\<close>

definition object_storage :: window where
  "object_storage = browser\<lparr>getItem := Some (ascii ''{}''), JSON_parse := Inr (JObj [])\<rparr>"

text \<open>A browser whose storage quota is used up.\<close>

definition full_storage :: window where
  "full_storage = browser\<lparr>setItem := Some QuotaExceededError\<rparr>"

text \<open>The Electron shell, its store holding \<^verbatim>\<open>{todos: []}\<close>.\<close>

definition electron :: window where
  "electron =
     \<lparr>electronAPI = Some \<lparr>getOfflineData = Inr (JObj [(ascii ''todos'', JArr [])]),
                           saveOfflineData = None\<rparr>,
      getItem = None, JSON_parse = Inr JNull, setItem = None, Date_now = 1730600000000,
      Notification_permission = Default, requestPermission = Denied\<rparr>"

definition failing_host :: window where
  "failing_host =
     electron\<lparr>electronAPI := Some \<lparr>getOfflineData = Inl HostError, saveOfflineData = Some HostError\<rparr>\<rparr>"

definition milk :: Todo where
  "milk = \<lparr>id' = 1, text' = ascii ''buy milk'', status = Pending\<rparr>"

definition eggs :: Todo where
  "eggs = \<lparr>id' = 2, text' = ascii ''buy eggs'', status = Completed\<rparr>"

definition two_todos :: app_state where
  "two_todos = \<lparr>todos = [milk, eggs], newTodo = [], filter_value = All'\<rparr>"

section \<open>Basic facts\<close>

lemma toggled_toggled: "toggled i (toggled i t) = t"
  by (cases "status t") (simp_all add: toggled_def)

lemma toggled_id: "id' (toggled i t) = id' t"
  by (simp add: toggled_def)

lemma toggled_text: "text' (toggled i t) = text' t"
  by (simp add: toggled_def)

lemma toggled_other: "id' t \<noteq> i \<Longrightarrow> toggled i t = t"
  by (simp add: toggled_def)

lemma todos_toggle: "todos (state (toggleTodoStatus w i s)) = map (toggled i) (todos s)"
  by (simp add: toggleTodoStatus_def Let_def)

lemma todos_delete: "todos (state (deleteTodo w i s)) = filter (\<lambda>todo. id' todo \<noteq> i) (todos s)"
  by (simp add: deleteTodo_def Let_def)

lemma todos_add:
  "trim (newTodo s) \<noteq> [] \<Longrightarrow>
   todos (state (addTodo w s)) =
     todos s @ [\<lparr>id' = Date_now w, text' = trim (newTodo s), status = Pending\<rparr>]"
  by (simp add: addTodo_def Let_def)

lemma saveTodos_call:
  "fst (saveTodos w ts) =
     [case electronAPI w of Some api \<Rightarrow> SaveOfflineData ts | None \<Rightarrow> SetItem ts]"
  by (simp add: saveTodos_def split: option.split)

lemma saveTodos_promise: "snd (saveTodos w ts) = async (backend_save w)"
  by (simp add: saveTodos_def backend_save_def split: option.split)

lemma console_errors_append: "console_errors (xs @ ys) = console_errors xs @ console_errors ys"
  by (simp add: console_errors_def)

lemma console_errors_saveTodos: "console_errors (fst (saveTodos w ts)) = []"
  by (simp add: saveTodos_call console_errors_def split: option.split)

lemma console_errors_showNotification: "console_errors (showNotification w title body) = []"
  by (simp add: showNotification_def showWebNotification_def console_errors_def
      split: option.split)

lemma map_toggled_absent: "i \<notin> id' ` set ts \<Longrightarrow> map (toggled i) ts = ts"
  by (induction ts) (auto simp: toggled_def)

lemma find_absent: "i \<notin> id' ` set ts \<Longrightarrow> find (\<lambda>todo. id' todo = i) ts = None"
  by (induction ts) auto

lemma status_cases: "status t = Pending \<or> status t = Completed"
  by (cases "status t") simp_all

text \<open>No handler throws to its caller: every call that can fail is made inside the
  \<^verbatim>\<open>async\<close> function \<^verbatim>\<open>saveTodos\<close>, whose promise the handlers drop.\<close>

lemma never_thrown:
  "thrown (addTodo w s) = None" "thrown (toggleTodoStatus w i s) = None"
  "thrown (deleteTodo w i s) = None"
  by (simp_all add: addTodo_def toggleTodoStatus_def deleteTodo_def Let_def)

lemma returns_undefined:
  "returned (addTodo w s) = JUndefined" "returned (toggleTodoStatus w i s) = JUndefined"
  "returned (deleteTodo w i s) = JUndefined"
  by (simp_all add: addTodo_def toggleTodoStatus_def deleteTodo_def Let_def)

lemma unhandled_delete: "unhandled (deleteTodo w i s) = dropped (async (backend_save w))"
  by (simp add: deleteTodo_def Let_def saveTodos_promise)

lemma unhandled_toggle: "unhandled (toggleTodoStatus w i s) = dropped (async (backend_save w))"
  by (simp add: toggleTodoStatus_def Let_def saveTodos_promise)

lemma unhandled_add:
  "trim (newTodo s) \<noteq> [] \<Longrightarrow> unhandled (addTodo w s) = dropped (async (backend_save w))"
  by (simp add: addTodo_def Let_def saveTodos_promise)

lemma no_console_error_delete: "console_errors (effects (deleteTodo w i s)) = []"
  by (simp add: deleteTodo_def Let_def console_errors_append console_errors_saveTodos
      console_errors_showNotification)

lemma no_console_error_toggle: "console_errors (effects (toggleTodoStatus w i s)) = []"
  by (simp add: toggleTodoStatus_def Let_def console_errors_append console_errors_saveTodos
      console_errors_showNotification)

lemma no_console_error_add: "console_errors (effects (addTodo w s)) = []"
proof (cases "trim (newTodo s) = []")
  case True
  then show ?thesis by (simp add: addTodo_def console_errors_def)
next
  case False
  then show ?thesis
    by (simp add: addTodo_def Let_def console_errors_append console_errors_saveTodos
        console_errors_showNotification)
qed

section \<open>Loading\<close>

lemma loadTodos_parse_failure:
  assumes "electronAPI w = None" and "getItem w = Some storedTodos" and "storedTodos \<noteq> []"
    and "JSON_parse w = Inl e"
  shows "load_promise (loadTodos w) = Rejected e \<and> load_log (loadTodos w) = []"
  using assms by (simp add: loadTodos_def)

lemma loadTodos_electron_fulfilled:
  assumes "electronAPI w = Some api"
  shows "load_promise (loadTodos w) = Fulfilled"
  using assms by (simp add: loadTodos_def split: sum.split)

lemma loadTodos_host_failure_logged:
  "loadTodos failing_host =
     \<lparr>load_promise = Fulfilled, setTodos = None,
      load_log = [ConsoleError ''Failed to load todos:'' HostError]\<rparr>"
  by (simp add: loadTodos_def failing_host_def electron_def)

lemma loadTodos_object_payload: "loaded_todos (loadTodos object_storage) = JObj []"
  by (simp add: loadTodos_def loaded_todos_def object_storage_def browser_def ascii_def)

lemma loadTodos_empty_array: "loaded_todos (loadTodos browser) = todos_value []"
  by (simp add: loadTodos_def loaded_todos_def browser_def ascii_def todos_value_def)

lemma loadTodos_electron_sample: "loaded_todos (loadTodos electron) = todos_value []"
  by (simp add: loadTodos_def loaded_todos_def electron_def todos_value_def)

text \<open>
  Claim C1 says that a malformed persisted payload makes the load yield the empty
  sequence without an exception, on the \<^verbatim>\<open>localStorage\<close> path in particular. The
  code does otherwise there: \<^verbatim>\<open>JSON.parse(storedTodos)\<close> stands outside any
  \<^verbatim>\<open>try\<close>, so on the truncated payload \<^verbatim>\<open>[{\<close> the promise of \<^verbatim>\<open>loadTodos\<close>
  is rejected with the \<^verbatim>\<open>SyntaxError\<close>, nothing is logged and \<^verbatim>\<open>setTodos\<close> is
  not called. (The Electron branch of the same function catches and logs,
  \<open>loadTodos_electron_fulfilled\<close>; a payload that parses to something else than a
  sequence is stored as it is, \<open>loadTodos_object_payload\<close>.)
\<close>

theorem loadTodos_truncated_payload_rejects:
  "loadTodos truncated_storage =
     \<lparr>load_promise = Rejected SyntaxError, setTodos = None, load_log = []\<rparr>"
  by (simp add: loadTodos_def truncated_storage_def browser_def ascii_def)

section \<open>Saving\<close>

text \<open>
  What holds of a failing save, whatever the handler: nothing is thrown to the caller
  and the mutation made in memory stays, since \<^verbatim>\<open>setTodos\<close> has run and nothing
  undoes it; no \<^verbatim>\<open>console.error\<close> is among the effects, and the failure \<open>e\<close> is
  the rejection of the promise of \<^verbatim>\<open>saveTodos\<close>, which the handler dropped.
\<close>

lemma save_failure_dropped_not_rolled_back:
  assumes "backend_save w = Some e"
  shows "(thrown (deleteTodo w i s) = None
          \<and> unhandled (deleteTodo w i s) = [e]
          \<and> console_errors (effects (deleteTodo w i s)) = []
          \<and> todos (state (deleteTodo w i s)) = filter (\<lambda>todo. id' todo \<noteq> i) (todos s))
       \<and> (thrown (toggleTodoStatus w i s) = None
          \<and> unhandled (toggleTodoStatus w i s) = [e]
          \<and> console_errors (effects (toggleTodoStatus w i s)) = []
          \<and> todos (state (toggleTodoStatus w i s)) = map (toggled i) (todos s))
       \<and> (thrown (addTodo w s) = None
          \<and> console_errors (effects (addTodo w s)) = []
          \<and> (trim (newTodo s) \<noteq> [] \<longrightarrow>
               unhandled (addTodo w s) = [e]
               \<and> todos (state (addTodo w s)) =
                   todos s @ [\<lparr>id' = Date_now w, text' = trim (newTodo s), status = Pending\<rparr>]))"
proof -
  have p: "dropped (async (backend_save w)) = [e]"
    using assms by (simp add: async_def dropped_def)
  show ?thesis
    by (simp add: never_thrown unhandled_delete unhandled_toggle unhandled_add p
        no_console_error_delete no_console_error_toggle no_console_error_add
        todos_delete todos_toggle todos_add)
qed

lemma save_failure_on_full_storage:
  "backend_save full_storage = Some QuotaExceededError
   \<and> unhandled (deleteTodo full_storage 1 two_todos) = [QuotaExceededError]
   \<and> todos (state (deleteTodo full_storage 1 two_todos)) = [eggs]
   \<and> unhandled (toggleTodoStatus full_storage 1 two_todos) = [QuotaExceededError]
   \<and> todos (state (toggleTodoStatus full_storage 1 two_todos)) = [milk\<lparr>status := Completed\<rparr>, eggs]
   \<and> unhandled (addTodo full_storage (setNewTodo (ascii '' tea '') two_todos)) = [QuotaExceededError]
   \<and> todos (state (addTodo full_storage (setNewTodo (ascii '' tea '') two_todos))) =
        [milk, eggs, \<lparr>id' = 1730600000000, text' = ascii ''tea'', status = Pending\<rparr>]"
proof -
  have h: "backend_save full_storage = Some QuotaExceededError"
    by (simp add: backend_save_def full_storage_def browser_def)
  have t: "trim (newTodo (setNewTodo (ascii '' tea '') two_todos)) = ascii ''tea''"
    by (simp add: setNewTodo_def trim_def ascii_def is_white_space_def)
  have n: "ascii ''tea'' \<noteq> []" by (simp add: ascii_def)
  show ?thesis
    using h t n
      save_failure_dropped_not_rolled_back [OF h, of 1 two_todos]
      save_failure_dropped_not_rolled_back [OF h, of 1 "setNewTodo (ascii '' tea '') two_todos"]
    by (simp add: two_todos_def milk_def eggs_def toggled_def setNewTodo_def full_storage_def
        browser_def)
qed

lemma save_failure_on_host:
  "unhandled (toggleTodoStatus failing_host 1 two_todos) = [HostError]
   \<and> console_errors (effects (toggleTodoStatus failing_host 1 two_todos)) = []"
proof -
  have h: "backend_save failing_host = Some HostError"
    by (simp add: backend_save_def failing_host_def electron_def)
  show ?thesis
    using save_failure_dropped_not_rolled_back [OF h, of 1 two_todos] by simp
qed

text \<open>
  Claim C2 says that a failing save of the backend is caught and logged, is never
  thrown to the caller of the mutation, and does not roll the mutation back. The code
  does not catch or log it: \<^verbatim>\<open>saveTodos\<close> has no \<^verbatim>\<open>try\<close>/\<^verbatim>\<open>catch\<close> and its
  callers drop its promise. At a browser whose quota is used up, \<^verbatim>\<open>addTodo\<close> on
  the input \<^verbatim>\<open>a\<close> makes no \<^verbatim>\<open>console.error\<close> call and the rejection with
  \<^verbatim>\<open>QuotaExceededError\<close> stays unhandled. (The load of the host, in
  \<^verbatim>\<open>loadTodos\<close>, does catch and log: \<open>loadTodos_host_failure_logged\<close>.)
\<close>

theorem addTodo_save_failure_not_logged:
  "backend_save full_storage = Some QuotaExceededError
   \<and> console_errors (effects (addTodo full_storage (setNewTodo (ascii ''a'') initial_state))) = []
   \<and> unhandled (addTodo full_storage (setNewTodo (ascii ''a'') initial_state))
       = [QuotaExceededError]"
  by (simp add: addTodo_def Let_def setNewTodo_def initial_state_def full_storage_def browser_def
      backend_save_def saveTodos_def async_def dropped_def console_errors_def
      showNotification_def showWebNotification_def trim_def ascii_def is_white_space_def)

section \<open>Ids\<close>

lemma toggle_keeps_ids: "map id' (todos (state (toggleTodoStatus w i s))) = map id' (todos s)"
  by (simp add: todos_toggle toggled_id)

lemma delete_keeps_distinct:
  "distinct (map id' (todos s)) \<Longrightarrow> distinct (map id' (todos (state (deleteTodo w i s))))"
  by (simp add: todos_delete distinct_map_filter)

lemma add_fresh_keeps_distinct:
  assumes "distinct (map id' (todos s))" and "Date_now w \<notin> id' ` set (todos s)"
  shows "distinct (map id' (todos (state (addTodo w s))))"
proof (cases "trim (newTodo s) = []")
  case True
  with assms show ?thesis by (simp add: addTodo_def)
next
  case False
  with assms show ?thesis by (simp add: todos_add)
qed

lemma add_same_clock_reading:
  assumes "trim (newTodo s) \<noteq> []" and "trim v \<noteq> []" and "Date_now w' = Date_now w"
  shows "\<not> distinct (map id' (todos (state (addTodo w' (setNewTodo v (state (addTodo w s)))))))"
proof -
  have "trim (newTodo (setNewTodo v (state (addTodo w s)))) \<noteq> []"
    using assms(2) by (simp add: setNewTodo_def)
  then show ?thesis
    using assms(1,3) by (simp add: todos_add setNewTodo_def)
qed

text \<open>
  Claim C3 says that the ids of the sequence are pairwise different under every
  operation, after two consecutive \<^verbatim>\<open>addTodo\<close> in particular. The id is
  \<^verbatim>\<open>Date.now()\<close>: two additions that read the same millisecond give two records
  with one id. (\<^verbatim>\<open>toggleTodoStatus\<close> and \<^verbatim>\<open>deleteTodo\<close> keep the ids distinct, and
  so does an addition at a reading not in use: \<open>toggle_keeps_ids\<close>,
  \<open>delete_keeps_distinct\<close>, \<open>add_fresh_keeps_distinct\<close>.)
\<close>

theorem addTodo_twice_same_clock_reading:
  "map id' (todos (state (addTodo browser (setNewTodo (ascii ''b'')
              (state (addTodo browser (setNewTodo (ascii ''a'') initial_state)))))))
   = [1730600000000, 1730600000000]"
  by (simp add: addTodo_def Let_def setNewTodo_def initial_state_def browser_def
      trim_def ascii_def is_white_space_def)

section \<open>Adding\<close>

text \<open>
  Claim C4, as stated, has \<^verbatim>\<open>addTodo\<close> return the updated sequence. The handler
  has no \<^verbatim>\<open>return\<close> statement: on the input \<^verbatim>\<open> tea \<close> and the sequence of two
  todos the call yields \<^verbatim>\<open>undefined\<close>, which is not the sequence of three todos
  it stored.
\<close>

theorem addTodo_returns_undefined:
  "returned (addTodo electron (setNewTodo (ascii '' tea '') two_todos)) = JUndefined
   \<and> todos (state (addTodo electron (setNewTodo (ascii '' tea '') two_todos)))
       = [milk, eggs, \<lparr>id' = 1730600000000, text' = ascii ''tea'', status = Pending\<rparr>]
   \<and> returned (addTodo electron (setNewTodo (ascii '' tea '') two_todos))
       \<noteq> todos_value (todos (state (addTodo electron (setNewTodo (ascii '' tea '') two_todos))))"
  by (simp add: addTodo_def Let_def setNewTodo_def two_todos_def electron_def todos_value_def
      trim_def ascii_def is_white_space_def)

text \<open>
  Claim C4, amended: when the trimmed input is not empty, \<^verbatim>\<open>addTodo\<close> makes the
  sequence one longer, keeps the records that were there in place, and puts at the
  tail a record with status Pending, the trimmed text and the clock reading as id;
  the call itself returns no value (\<^verbatim>\<open>undefined\<close>): the updated sequence is the
  one of the next state.
\<close>

theorem addTodo_appends_pending:
  assumes "trim (newTodo s) \<noteq> []"
  shows "length (todos (state (addTodo w s))) = length (todos s) + 1
         \<and> take (length (todos s)) (todos (state (addTodo w s))) = todos s
         \<and> status (last (todos (state (addTodo w s)))) = Pending
         \<and> text' (last (todos (state (addTodo w s)))) = trim (newTodo s)
         \<and> id' (last (todos (state (addTodo w s)))) = Date_now w
         \<and> returned (addTodo w s) = JUndefined"
  using assms by (simp add: todos_add returns_undefined)

theorem addTodo_appends_pending_witness:
  "trim (newTodo (setNewTodo (ascii '' tea '') two_todos)) \<noteq> []
   \<and> length (todos (state (addTodo electron (setNewTodo (ascii '' tea '') two_todos)))) = 3
   \<and> take 2 (todos (state (addTodo electron (setNewTodo (ascii '' tea '') two_todos))))
       = [milk, eggs]
   \<and> status (last (todos (state (addTodo electron (setNewTodo (ascii '' tea '') two_todos)))))
       = Pending
   \<and> text' (last (todos (state (addTodo electron (setNewTodo (ascii '' tea '') two_todos)))))
       = ascii ''tea''
   \<and> returned (addTodo electron (setNewTodo (ascii '' tea '') two_todos)) = JUndefined"
proof -
  have t: "trim (newTodo (setNewTodo (ascii '' tea '') two_todos)) = ascii ''tea''"
    by (simp add: setNewTodo_def trim_def ascii_def is_white_space_def)
  have n: "trim (newTodo (setNewTodo (ascii '' tea '') two_todos)) \<noteq> []"
    using t by (simp add: ascii_def)
  have l: "length (todos (setNewTodo (ascii '' tea '') two_todos)) = 2"
    "todos (setNewTodo (ascii '' tea '') two_todos) = [milk, eggs]"
    by (simp_all add: two_todos_def setNewTodo_def)
  show ?thesis
    using addTodo_appends_pending [OF n, of electron] n t l by (simp add: numeral_2_eq_2)
qed

text \<open>
  Claim C5: when the trimmed input is empty (the empty string, or white space only),
  \<^verbatim>\<open>addTodo\<close> does nothing: the state is the one it ran on, so the sequence has
  the same records, and no call is made to the backend or the notifier.
\<close>

theorem addTodo_blank_is_noop:
  assumes "trim (newTodo s) = []"
  shows "addTodo w s =
           \<lparr>state = s, effects = [], thrown = None, returned = JUndefined, unhandled = []\<rparr>
         \<and> todos (state (addTodo w s)) = todos s"
  using assms by (simp add: addTodo_def)

theorem addTodo_blank_is_noop_witness:
  "trim (newTodo (setNewTodo (ascii ''   '') two_todos)) = []
   \<and> trim (newTodo (setNewTodo [] two_todos)) = []
   \<and> todos (state (addTodo browser (setNewTodo (ascii ''   '') two_todos))) = [milk, eggs]
   \<and> effects (addTodo browser (setNewTodo (ascii ''   '') two_todos)) = []
   \<and> todos (state (addTodo browser (setNewTodo [] two_todos))) = [milk, eggs]
   \<and> effects (addTodo browser (setNewTodo [] two_todos)) = []"
proof -
  have a: "trim (newTodo (setNewTodo (ascii ''   '') two_todos)) = []"
    by (simp add: setNewTodo_def trim_def ascii_def is_white_space_def)
  have b: "trim (newTodo (setNewTodo [] two_todos)) = []"
    by (simp add: setNewTodo_def trim_def)
  show ?thesis
    using a b addTodo_blank_is_noop [OF a, of browser] addTodo_blank_is_noop [OF b, of browser]
    by (simp add: setNewTodo_def two_todos_def)
qed

section \<open>The filtered view\<close>

lemma filteredTodos_Status: "filteredTodos (Status st) ts = filter (\<lambda>todo. status todo = st) ts"
  by (simp add: filteredTodos_def)

lemma mset_filter_status:
  "mset (filter (\<lambda>todo. status todo = Pending) ts)
     + mset (filter (\<lambda>todo. status todo = Completed) ts) = mset ts"
proof (induction ts)
  case Nil
  show ?case by simp
next
  case (Cons t ts)
  then show ?case by (cases "status t") simp_all
qed

text \<open>
  Claim C6: the Pending view and the Completed view together hold the records of the
  sequence, none left out (their union is the set of the sequence) and none twice
  (they share no record, and as multisets they add up to the sequence); the view
  under \<^verbatim>\<open>"All"\<close> is the sequence itself. \<open>filteredTodos\<close> is a function of the
  filter and the sequence alone: it has no state to change and makes no call.
\<close>

theorem filteredTodos_partition:
  "set (filteredTodos (Status Pending) ts) \<union> set (filteredTodos (Status Completed) ts) = set ts
   \<and> set (filteredTodos (Status Pending) ts) \<inter> set (filteredTodos (Status Completed) ts) = {}
   \<and> mset (filteredTodos (Status Pending) ts) + mset (filteredTodos (Status Completed) ts) = mset ts
   \<and> filteredTodos All' ts = ts"
proof -
  have u: "set (filteredTodos (Status Pending) ts) \<union> set (filteredTodos (Status Completed) ts) = set ts"
    using status_cases by (auto simp: filteredTodos_Status)
  have d: "set (filteredTodos (Status Pending) ts) \<inter> set (filteredTodos (Status Completed) ts) = {}"
    by (auto simp: filteredTodos_Status)
  have m: "mset (filteredTodos (Status Pending) ts) + mset (filteredTodos (Status Completed) ts) = mset ts"
    by (simp only: filteredTodos_Status mset_filter_status)
  have a: "filteredTodos All' ts = ts"
    by (simp add: filteredTodos_def)
  from u d m a show ?thesis by blast
qed

theorem filteredTodos_partition_witness:
  "filteredTodos (Status Pending) [milk, eggs] = [milk]
   \<and> filteredTodos (Status Completed) [milk, eggs] = [eggs]
   \<and> set [milk] \<union> set [eggs] = set [milk, eggs]
   \<and> filteredTodos All' [milk, eggs] = [milk, eggs]"
proof -
  have p: "filteredTodos (Status Pending) [milk, eggs] = [milk]"
    by (simp add: filteredTodos_def milk_def eggs_def)
  have c: "filteredTodos (Status Completed) [milk, eggs] = [eggs]"
    by (simp add: filteredTodos_def milk_def eggs_def)
  show ?thesis
    using filteredTodos_partition [of "[milk, eggs]"] p c by simp
qed

section \<open>Toggling\<close>

text \<open>
  Claim C7: for a record of the sequence with the id, \<^verbatim>\<open>toggleTodoStatus\<close> turns
  Pending into Completed and Completed into Pending and leaves its id and text; a
  second call with the same id gives the record its first status again, and the whole
  sequence is the one before the two calls.
\<close>

theorem toggleTodoStatus_twice:
  assumes "k < length (todos s)" and "id' (todos s ! k) = i"
  shows "status (todos (state (toggleTodoStatus w i s)) ! k)
           = (case status (todos s ! k) of Pending \<Rightarrow> Completed | Completed \<Rightarrow> Pending)
         \<and> id' (todos (state (toggleTodoStatus w i s)) ! k) = i
         \<and> text' (todos (state (toggleTodoStatus w i s)) ! k) = text' (todos s ! k)
         \<and> status (todos (state (toggleTodoStatus w' i (state (toggleTodoStatus w i s)))) ! k)
           = status (todos s ! k)
         \<and> todos (state (toggleTodoStatus w' i (state (toggleTodoStatus w i s)))) = todos s"
proof -
  have twice: "todos (state (toggleTodoStatus w' i (state (toggleTodoStatus w i s)))) = todos s"
    by (simp add: todos_toggle toggled_toggled comp_def)
  have flip: "status (todos (state (toggleTodoStatus w i s)) ! k)
           = (case status (todos s ! k) of Pending \<Rightarrow> Completed | Completed \<Rightarrow> Pending)"
    using assms by (simp add: todos_toggle toggled_def split: status.split)
  have frame: "id' (todos (state (toggleTodoStatus w i s)) ! k) = i
         \<and> text' (todos (state (toggleTodoStatus w i s)) ! k) = text' (todos s ! k)"
    using assms by (simp add: todos_toggle toggled_id toggled_text)
  from twice flip frame show ?thesis by simp
qed

theorem toggleTodoStatus_twice_witness:
  "(0::nat) < length (todos two_todos) \<and> id' (todos two_todos ! 0) = 1
   \<and> status (todos (state (toggleTodoStatus browser 1 two_todos)) ! 0) = Completed
   \<and> status (todos (state (toggleTodoStatus electron 1 (state (toggleTodoStatus browser 1 two_todos)))) ! 0)
       = Pending
   \<and> todos (state (toggleTodoStatus electron 1 (state (toggleTodoStatus browser 1 two_todos))))
       = [milk, eggs]"
proof -
  have k: "(0::nat) < length (todos two_todos)" by (simp add: two_todos_def)
  have i: "id' (todos two_todos ! 0) = 1" by (simp add: two_todos_def milk_def)
  show ?thesis
    using k i toggleTodoStatus_twice [OF k i, of browser electron]
    by (simp add: two_todos_def milk_def)
qed

text \<open>
  Claim C9: with an id that no record of the sequence has, \<^verbatim>\<open>toggleTodoStatus\<close>
  leaves the sequence as it is: the same records, with the same id, text and status,
  in the same order; the whole state is unchanged.
\<close>

theorem toggleTodoStatus_unknown_id:
  assumes "i \<notin> id' ` set (todos s)"
  shows "todos (state (toggleTodoStatus w i s)) = todos s \<and> state (toggleTodoStatus w i s) = s"
  using assms by (simp add: toggleTodoStatus_def Let_def map_toggled_absent)

theorem toggleTodoStatus_unknown_id_witness:
  "7 \<notin> id' ` set (todos two_todos)
   \<and> todos (state (toggleTodoStatus browser 7 two_todos)) = [milk, eggs]"
proof -
  have a: "7 \<notin> id' ` set (todos two_todos)" by (simp add: two_todos_def milk_def eggs_def)
  show ?thesis
    using a toggleTodoStatus_unknown_id [OF a, of browser] by (simp add: two_todos_def)
qed

text \<open>
  Claim C10: with an id that no record of the sequence has, \<^verbatim>\<open>toggleTodoStatus\<close>
  still has effects: it calls the save of the backend in use with the whole, unchanged
  sequence, and then \<^verbatim>\<open>showNotification\<close> with a body that interpolates the
  \<^verbatim>\<open>undefined\<close> result of the lookup.
\<close>

theorem toggleTodoStatus_unknown_id_effects:
  assumes "i \<notin> id' ` set (todos s)"
  shows "effects (toggleTodoStatus w i s) =
           (case electronAPI w of Some api \<Rightarrow> SaveOfflineData (todos s) | None \<Rightarrow> SetItem (todos s))
           # showNotification w ''Todo Status Updated'' ''A todo has been marked as undefined.''"
  using assms
  by (simp add: toggleTodoStatus_def Let_def map_toggled_absent saveTodos_call found_status_def
      find_absent)

theorem toggleTodoStatus_unknown_id_effects_witness:
  "7 \<notin> id' ` set (todos two_todos)
   \<and> effects (toggleTodoStatus browser 7 two_todos) =
       [SetItem [milk, eggs],
        WebNotification ''Todo Status Updated'' ''A todo has been marked as undefined.'']
   \<and> effects (toggleTodoStatus electron 7 two_todos) =
       [SaveOfflineData [milk, eggs],
        HostNotification ''Todo Status Updated'' ''A todo has been marked as undefined.'']"
proof -
  have a: "7 \<notin> id' ` set (todos two_todos)" by (simp add: two_todos_def milk_def eggs_def)
  show ?thesis
    using a toggleTodoStatus_unknown_id_effects [OF a, of browser]
      toggleTodoStatus_unknown_id_effects [OF a, of electron]
    by (simp add: two_todos_def browser_def electron_def showNotification_def
        showWebNotification_def)
qed

section \<open>Deleting\<close>

text \<open>
  Claim C8: \<^verbatim>\<open>deleteTodo\<close> leaves no record with the id, and keeps the records
  with another id as they were and in their order (the sequence after is the one
  before without the records of that id); a second \<^verbatim>\<open>deleteTodo\<close> with the same id
  leaves the sequence as the first one made it.
\<close>

theorem deleteTodo_frame:
  "(\<forall>t \<in> set (todos (state (deleteTodo w i s))). id' t \<noteq> i)
   \<and> filter (\<lambda>t. id' t \<noteq> i) (todos (state (deleteTodo w i s))) = filter (\<lambda>t. id' t \<noteq> i) (todos s)
   \<and> todos (state (deleteTodo w i s)) = filter (\<lambda>t. id' t \<noteq> i) (todos s)
   \<and> todos (state (deleteTodo w' i (state (deleteTodo w i s)))) = todos (state (deleteTodo w i s))"
  by (simp add: todos_delete)

theorem deleteTodo_frame_witness:
  "todos (state (deleteTodo browser 1 two_todos)) = [eggs]
   \<and> todos (state (deleteTodo browser 1 (state (deleteTodo browser 1 two_todos)))) = [eggs]
   \<and> todos (state (deleteTodo browser 7 two_todos)) = [milk, eggs]"
  using deleteTodo_frame [of browser 1 two_todos browser]
    deleteTodo_frame [of browser 7 two_todos browser]
  by (simp add: two_todos_def milk_def eggs_def)

end
